theory Spec2Isabelle
  imports Main
begin

section \<open>The JavaScript library functions the extension calls\<close>

text \<open>
  A JavaScript string is a sequence of UTF-16 code units, and every string function
  below counts and compares code units. A code unit is written as its number, and
  \<open>lit\<close> turns an ASCII literal of the source into its code units.
\<close>

type_synonym jsstring = "nat list"

definition lit :: "string \<Rightarrow> jsstring" where
  "lit s = map of_char s"

text \<open>\<^verbatim>\<open>Array.prototype.indexOf\<close>: the first position of the element, or -1.\<close>

fun array_indexOf :: "'a list \<Rightarrow> 'a \<Rightarrow> int" where
  "array_indexOf [] x = - 1"
| "array_indexOf (y # ys) x =
     (if y = x then 0
      else (let i = array_indexOf ys x in if i = - 1 then - 1 else i + 1))"

text \<open>\<^verbatim>\<open>xs.splice(start, count)\<close>: the array after the removal.\<close>

definition array_splice :: "'a list \<Rightarrow> nat \<Rightarrow> nat \<Rightarrow> 'a list" where
  "array_splice xs start count = take start xs @ drop (start + count) xs"

text \<open>
  \<^verbatim>\<open>Array.prototype.sort(compare)\<close>. The language standard requires the sort to be
  stable, and the comparator follows its convention: a result that is not positive
  keeps the first argument in front. The model is insertion from the right, which
  never moves an element over one it does not have to follow.
\<close>

fun insertStable :: "('a \<Rightarrow> 'a \<Rightarrow> int) \<Rightarrow> 'a \<Rightarrow> 'a list \<Rightarrow> 'a list" where
  "insertStable cmp x [] = [x]"
| "insertStable cmp x (y # ys) =
     (if cmp x y \<le> 0 then x # y # ys else y # insertStable cmp x ys)"

definition array_sort :: "('a \<Rightarrow> 'a \<Rightarrow> int) \<Rightarrow> 'a list \<Rightarrow> 'a list" where
  "array_sort cmp xs = foldr (insertStable cmp) xs []"

text \<open>\<^verbatim>\<open>s.startsWith(p)\<close> and \<^verbatim>\<open>s.includes(p)\<close>.\<close>

fun str_startsWith :: "jsstring \<Rightarrow> jsstring \<Rightarrow> bool" where
  "str_startsWith s [] = True"
| "str_startsWith [] (p # ps) = False"
| "str_startsWith (c # cs) (p # ps) = (c = p \<and> str_startsWith cs ps)"

fun str_includes :: "jsstring \<Rightarrow> jsstring \<Rightarrow> bool" where
  "str_includes [] p = (p = [])"
| "str_includes (c # cs) p = (str_startsWith (c # cs) p \<or> str_includes cs p)"

text \<open>
  \<^verbatim>\<open>s.trim()\<close> removes white space and line terminators at both ends: TAB, LF, VT,
  FF, CR, the space, the no-break space, the other space separators of Unicode, the
  line and paragraph separators and the byte order mark.
\<close>

definition isWhiteSpace :: "nat \<Rightarrow> bool" where
  "isWhiteSpace c =
     (c \<in> set [0x09, 0x0A, 0x0B, 0x0C, 0x0D, 0x20, 0xA0, 0x1680,
                0x2000, 0x2001, 0x2002, 0x2003, 0x2004, 0x2005, 0x2006, 0x2007, 0x2008,
                0x2009, 0x200A, 0x2028, 0x2029, 0x202F, 0x205F, 0x3000, 0xFEFF])"

definition str_trim :: "jsstring \<Rightarrow> jsstring" where
  "str_trim s = rev (dropWhile isWhiteSpace (rev (dropWhile isWhiteSpace s)))"

text \<open>
  \<^verbatim>\<open>s.replace(pattern, replacement)\<close> with a string pattern: only the first occurrence
  is replaced. The one call of this form passes the empty replacement.
\<close>

fun str_replace :: "jsstring \<Rightarrow> jsstring \<Rightarrow> jsstring \<Rightarrow> jsstring" where
  "str_replace [] pat rep = (if pat = [] then rep else [])"
| "str_replace (c # cs) pat rep =
     (if str_startsWith (c # cs) pat then rep @ drop (length pat) (c # cs)
      else c # str_replace cs pat rep)"

text \<open>
  \<^verbatim>\<open>s.split(separator)\<close>: the pieces between the occurrences of the separator, taken
  from the left without overlap. \<open>cur\<close> is the piece being read.
\<close>

function split_from :: "jsstring \<Rightarrow> jsstring \<Rightarrow> jsstring \<Rightarrow> jsstring list" where
  "split_from sep cur [] = [cur]"
| "split_from sep cur (c # cs) =
     (if str_startsWith (c # cs) sep
      then cur # split_from sep [] (drop (length sep - 1) cs)
      else split_from sep (cur @ [c]) cs)"
  by pat_completeness auto
termination
  by (relation "measure (\<lambda>(sep, cur, s). length s)") auto

definition str_split :: "jsstring \<Rightarrow> jsstring \<Rightarrow> jsstring list" where
  "str_split s sep = (if sep = [] then map (\<lambda>c. [c]) s else split_from sep [] s)"

text \<open>The character class \<^verbatim>\<open>[A-Z]\<close>: the code units 65 to 90.\<close>

definition isUpper :: "nat \<Rightarrow> bool" where
  "isUpper c = (65 \<le> c \<and> c \<le> 90)"

text \<open>
  The regular expression \<^verbatim>\<open>.\<close> (without the flags \<^verbatim>\<open>s\<close> and \<^verbatim>\<open>u\<close>) matches one code
  unit that is no line terminator: not LF, CR, U+2028 or U+2029.
\<close>

definition isLineTerminator :: "nat \<Rightarrow> bool" where
  "isLineTerminator c = (c \<in> set [0x0A, 0x0D, 0x2028, 0x2029])"

text \<open>
  \<^verbatim>\<open>toUpperCase\<close> on a string of one code unit. The letters a to z lose 32; the other
  ASCII code units and the two separators U+2028 and U+2029 have no upper case and
  stay. For every other code unit the result is read from the case table of the
  engine, \<open>upper\<close>, which is not part of the repository; it may be more than one
  code unit long.
\<close>

definition toUpperCase_unit :: "(nat \<Rightarrow> jsstring) \<Rightarrow> nat \<Rightarrow> jsstring" where
  "toUpperCase_unit upper c =
     (if 97 \<le> c \<and> c \<le> 122 then [c - 32]
      else if c < 128 \<or> c = 0x2028 \<or> c = 0x2029 then [c]
      else upper c)"

text \<open>A number in a template literal: its decimal digits.\<close>

fun number_string :: "nat \<Rightarrow> jsstring" where
  "number_string n =
     (if n < 10 then [48 + n]
      else number_string (n div 10) @ [48 + n mod 10])"

text \<open>
  A \<^verbatim>\<open>Map\<close> keeps its keys in insertion order: an association list with one entry
  for a key. \<^verbatim>\<open>set\<close> on a key that is there replaces the value in place.
\<close>

fun map_set :: "('k \<times> 'v) list \<Rightarrow> 'k \<Rightarrow> 'v \<Rightarrow> ('k \<times> 'v) list" where
  "map_set [] k v = [(k, v)]"
| "map_set ((k', v') # m) k v =
     (if k' = k then (k, v) # m else (k', v') # map_set m k v)"

text \<open>
  A value that was thrown, or with which a promise was rejected, as a \<^verbatim>\<open>catch\<close> block
  that reads \<^verbatim>\<open>error.message\<close> into a template literal meets it: a value with a
  message, any other value but \<^verbatim>\<open>null\<close> and \<^verbatim>\<open>undefined\<close> (its message is
  \<^verbatim>\<open>undefined\<close>, which the template prints as that word), and \<^verbatim>\<open>null\<close> or
  \<^verbatim>\<open>undefined\<close>, where reading the property throws a \<^verbatim>\<open>TypeError\<close> (\<open>None\<close>).
\<close>

datatype thrown = ErrorWithMessage jsstring | ValueWithoutMessage | NullOrUndefined

fun messageOf :: "thrown \<Rightarrow> jsstring option" where
  "messageOf (ErrorWithMessage m) = Some m"
| "messageOf ValueWithoutMessage = Some (lit ''undefined'')"
| "messageOf NullOrUndefined = None"


section \<open>The metadata extractor\<close>

text \<open>
  \<^verbatim>\<open>extractMetaFromFunction(funcName, func)\<close> reads \<^verbatim>\<open>func.toString()\<close>, the source
  text of the function, which is the last argument here; the first is the case table
  of the engine.
\<close>

definition paramPrefix :: jsstring where
  "paramPrefix = lit ''// ~''"

definition directiveLines :: "jsstring \<Rightarrow> jsstring list" where
  "directiveLines src =
     filter (\<lambda>x. str_startsWith x paramPrefix \<and> str_includes x (lit '': ''))
       (map str_trim (str_split src (lit ''\<newline>'')))"

text \<open>
  The callback of \<^verbatim>\<open>reduce\<close>: \<^verbatim>\<open>[key, value]\<close> reads the first two pieces of the
  split line (a missing piece is \<^verbatim>\<open>undefined\<close>), and \<^verbatim>\<open>acc[key] = value\<close> stores
  the second under the first. Later pieces are dropped.
\<close>

fun setMeta :: "(jsstring \<rightharpoonup> jsstring) \<Rightarrow> jsstring list \<Rightarrow> (jsstring \<rightharpoonup> jsstring)" where
  "setMeta acc (key # value # rest) = acc(key \<mapsto> value)"
| "setMeta acc [key] = acc(key := None)"
| "setMeta acc [] = acc(lit ''undefined'' := None)"

definition foundMeta :: "jsstring \<Rightarrow> (jsstring \<rightharpoonup> jsstring)" where
  "foundMeta src =
     foldl setMeta Map.empty
       (map (\<lambda>x. str_split (str_replace x paramPrefix []) (lit '': '')) (directiveLines src))"

text \<open>\<^verbatim>\<open>funcName.replace(/([A-Z])/g, " $1")\<close>\<close>

definition spaceBeforeUpper :: "jsstring \<Rightarrow> jsstring" where
  "spaceBeforeUpper s = concat (map (\<lambda>c. if isUpper c then [0x20, c] else [c]) s)"

text \<open>\<^verbatim>\<open>.replace(/^./, (str) => str.toUpperCase())\<close>\<close>

definition upperCaseFirst :: "(nat \<Rightarrow> jsstring) \<Rightarrow> jsstring \<Rightarrow> jsstring" where
  "upperCaseFirst upper s =
     (case s of
        [] \<Rightarrow> []
      | c # cs \<Rightarrow> if isLineTerminator c then s else toUpperCase_unit upper c @ cs)"

text \<open>\<^verbatim>\<open>v || d\<close> on a string that may be undefined: undefined and the empty string are falsy.\<close>

definition orElse :: "jsstring option \<Rightarrow> jsstring \<Rightarrow> jsstring" where
  "orElse v d = (case v of None \<Rightarrow> d | Some s \<Rightarrow> if s = [] then d else s)"

record meta =
  name :: jsstring
  description :: jsstring

definition extractMetaFromFunction :: "(nat \<Rightarrow> jsstring) \<Rightarrow> jsstring \<Rightarrow> jsstring \<Rightarrow> meta" where
  "extractMetaFromFunction upper funcName src =
     (let fm = foundMeta src;
          nm = orElse (fm (lit ''name'')) (upperCaseFirst upper (spaceBeforeUpper funcName))
      in \<lparr>name = nm,
          description = orElse (fm (lit ''description'')) (lit ''Execute '' @ nm @ lit '' function'')\<rparr>)"


section \<open>The recency list\<close>

text \<open>The list update of \<^verbatim>\<open>updateRecentlyUsedCommands\<close>: \<^verbatim>\<open>splice\<close>, then \<^verbatim>\<open>unshift\<close>.\<close>

definition touchRecent :: "jsstring list \<Rightarrow> jsstring \<Rightarrow> jsstring list" where
  "touchRecent recent commandId =
     (let existingIndex = array_indexOf recent commandId;
          removed = (if existingIndex > - 1 then array_splice recent (nat existingIndex) 1
                     else recent)
      in commandId # removed)"


section \<open>The state of the extension and its surroundings\<close>

text \<open>
  What a user function gives back: \<^verbatim>\<open>undefined\<close>, \<^verbatim>\<open>null\<close>, or an object whose
  fields \<^verbatim>\<open>popup\<close>, \<^verbatim>\<open>replace\<close> and \<^verbatim>\<open>clipboard\<close> are each undefined (\<open>None\<close>) or a
  string. A call either resolves with such a value, or it throws or rejects with
  some value. The argument is the selected text, undefined when no editor is open.
\<close>

datatype jsresult =
  Undefined
  | Null
  | Object (popup: "jsstring option") (replace: "jsstring option") (clipboard: "jsstring option")

datatype outcome = Resolves jsresult | Throws thrown

type_synonym callable = "jsstring option \<Rightarrow> outcome"

text \<open>
  A value the definitions module exports: a function, or anything else. Of a function
  the model keeps what a call does and what \<^verbatim>\<open>toString()\<close> gives: the source text,
  unless the module has put a method of its own in its place; \<open>Inl\<close> is what that
  method throws, or what the string calls on its result throw when it is no string.
\<close>

datatype export_value = Function "thrown + jsstring" callable | NonFunction

record command = meta +
  func :: callable

text \<open>What the user sees or the host is asked to do, in the order of the calls.\<close>

datatype effect =
  ShowErrorMessage jsstring
  | ShowInformationMessage jsstring
  | SetStatusBarMessage jsstring
  | EditReplace jsstring
  | ClipboardWriteText jsstring

text \<open>
  The module's variables \<^verbatim>\<open>customCommands\<close>, \<^verbatim>\<open>customCommandDisposables\<close> and
  \<^verbatim>\<open>recentlyUsedCommands\<close>. A disposable is written as the id of the command it
  unregisters. \<open>hostCommands\<close> are the host's live registrations, \<open>pickerOrder\<close> is the
  array \<^verbatim>\<open>orderedCommandIds\<close> that the picker's handler closes over, and \<open>effects\<close>
  is the log of the calls to the user interface.
\<close>

record state =
  customCommands :: "(jsstring \<times> command) list"
  customCommandDisposables :: "jsstring list"
  recentlyUsedCommands :: "jsstring list"
  hostCommands :: "jsstring list"
  pickerOrder :: "jsstring list"
  effects :: "effect list"

text \<open>
  What the extension finds outside when it runs: the result of
  \<^verbatim>\<open>getCommandsFilePath()\<close>, of \<^verbatim>\<open>fs.existsSync\<close> on that path, of \<^verbatim>\<open>require\<close> on it
  followed by \<^verbatim>\<open>Object.entries\<close> (\<open>Inl\<close> the value thrown), the text selected in the
  active editor (\<open>None\<close> without an editor), and the case table of the engine.
\<close>

record world =
  commandsPath :: "jsstring option"
  fileExists :: bool
  requireModule :: "thrown + (jsstring \<times> export_value) list"
  activeTextEditor :: "jsstring option"
  caseTable :: "nat \<Rightarrow> jsstring"

text \<open>
  How a function of the extension ends: it returns (an \<^verbatim>\<open>async\<close> function: its promise
  resolves), or an exception leaves it (its promise rejects). Either way the variables
  of the module are as the function left them.
\<close>

datatype completion = Returned state | Raised state

fun stateOf :: "completion \<Rightarrow> state" where
  "stateOf (Returned st) = st"
| "stateOf (Raised st) = st"

definition initialState :: state where
  "initialState =
     \<lparr>customCommands = [], customCommandDisposables = [], recentlyUsedCommands = [],
      hostCommands = [], pickerOrder = [], effects = []\<rparr>"

definition emit :: "effect list \<Rightarrow> state \<Rightarrow> state" where
  "emit es st = st\<lparr>effects := effects st @ es\<rparr>"


section \<open>The command loader\<close>

definition commandPrefix :: jsstring where
  "commandPrefix = lit ''custom-commander.custom.''"

text \<open>
  The loop over the module's entries, from the commands stored so far: the commands
  when it stops, and the value thrown if it was \<^verbatim>\<open>toString()\<close> that stopped it. The
  entries stored before the exception stay in the map.
\<close>

fun loadEntries ::
  "(nat \<Rightarrow> jsstring) \<Rightarrow> (jsstring \<times> command) list \<Rightarrow> (jsstring \<times> export_value) list
   \<Rightarrow> (jsstring \<times> command) list \<times> thrown option" where
  "loadEntries upper cmds [] = (cmds, None)"
| "loadEntries upper cmds ((funcName, NonFunction) # rest) = loadEntries upper cmds rest"
| "loadEntries upper cmds ((funcName, Function (Inl e) f) # rest) = (cmds, Some e)"
| "loadEntries upper cmds ((funcName, Function (Inr src) f) # rest) =
     (let m = extractMetaFromFunction upper funcName src
      in loadEntries upper
           (map_set cmds (commandPrefix @ funcName)
              \<lparr>name = name m, description = description m, func = f\<rparr>)
           rest)"

text \<open>
  The \<^verbatim>\<open>catch\<close> block of \<^verbatim>\<open>loadCustomCommands\<close>: it shows the message of what was
  thrown, and when reading the message throws, that exception leaves the function.
\<close>

definition catchLoad :: "thrown \<Rightarrow> state \<Rightarrow> completion" where
  "catchLoad e st =
     (case messageOf e of
        None \<Rightarrow> Raised st
      | Some message \<Rightarrow>
          Returned (emit [ShowErrorMessage (lit ''Error loading custom-commander.js: '' @ message)] st))"

definition loadCustomCommands :: "world \<Rightarrow> state \<Rightarrow> completion" where
  "loadCustomCommands w st =
     (let st1 = st\<lparr>customCommands := []\<rparr>
      in case commandsPath w of
           None \<Rightarrow> Returned st1
         | Some p \<Rightarrow>
             if \<not> fileExists w then Returned st1
             else (case requireModule w of
                     Inl e \<Rightarrow> catchLoad e st1
                   | Inr entries \<Rightarrow>
                       (case loadEntries (caseTable w) [] entries of
                          (cmds, None) \<Rightarrow> Returned (st1\<lparr>customCommands := cmds\<rparr>)
                        | (cmds, Some e) \<Rightarrow> catchLoad e (st1\<lparr>customCommands := cmds\<rparr>))))"


section \<open>The command registry\<close>

definition pickerId :: jsstring where
  "pickerId = lit ''custom-commander.pickCustomCommand''"

text \<open>The comparator handed to \<^verbatim>\<open>sort\<close>.\<close>

definition compareRecent :: "jsstring list \<Rightarrow> jsstring \<Rightarrow> jsstring \<Rightarrow> int" where
  "compareRecent recent a b =
     (let aIndex = array_indexOf recent a;
          bIndex = array_indexOf recent b
      in if aIndex \<noteq> - 1 \<and> bIndex \<noteq> - 1 then aIndex - bIndex
         else if aIndex \<noteq> - 1 then - 1
         else if bIndex \<noteq> - 1 then 1
         else 0)"

definition orderedCommandIds :: "(jsstring \<times> command) list \<Rightarrow> jsstring list \<Rightarrow> jsstring list" where
  "orderedCommandIds cmds recent = array_sort (compareRecent recent) (map fst cmds)"

text \<open>
  \<^verbatim>\<open>registerCustomCommands\<close>: every disposable is disposed (its command leaves the
  host), then each id is registered in order and the picker after them; every new
  disposable is pushed on the emptied array. The host refuses an id that is still
  registered; the ids of this function are registered by it alone and disposed first,
  so that error has no branch here.
\<close>

definition registerCustomCommands :: "state \<Rightarrow> state" where
  "registerCustomCommands st =
     (let disposed = filter (\<lambda>c. c \<notin> set (customCommandDisposables st)) (hostCommands st);
          ordered = orderedCommandIds (customCommands st) (recentlyUsedCommands st)
      in st\<lparr>customCommandDisposables := ordered @ [pickerId],
             hostCommands := disposed @ ordered @ [pickerId],
             pickerOrder := ordered\<rparr>)"

text \<open>
  The picker's handler up to its call of \<^verbatim>\<open>showQuickPick\<close>: the items and the
  placeholder it passes. An item is its label, description and command id. The
  handler reads \<^verbatim>\<open>customCommands\<close> when it runs; \<open>None\<close> is the \<^verbatim>\<open>TypeError\<close> of
  reading \<^verbatim>\<open>data.name\<close> when an id of the captured order has no entry any more.
\<close>

datatype quickPickItem = QuickPickItem jsstring jsstring jsstring

definition populatedItem :: "state \<Rightarrow> jsstring \<Rightarrow> quickPickItem option" where
  "populatedItem st cid =
     (case map_of (customCommands st) cid of
        None \<Rightarrow> None
      | Some data \<Rightarrow>
          Some (QuickPickItem
                  ((if cid \<in> set (recentlyUsedCommands st) then lit ''$(clock) '' else []) @ name data)
                  (description data) cid))"

definition pickerQuickPick :: "state \<Rightarrow> (quickPickItem list \<times> jsstring) option" where
  "pickerQuickPick st =
     (if length (customCommands st) = 0
      then Some ([QuickPickItem (lit ''$(file-add) Create Commands File'')
                    (lit ''Create a new custom-commander.js file with sample functions'')
                    (lit ''create-commands-file'')],
                 lit ''No custom functions found. Create a commands file to get started.'')
      else (case those (map (populatedItem st) (pickerOrder st)) of
              None \<Rightarrow> None
            | Some items \<Rightarrow> Some (items, lit ''Select a custom command to run'')))"


section \<open>Reloading and executing\<close>

text \<open>
  \<^verbatim>\<open>reloadCommands\<close>: when \<^verbatim>\<open>loadCustomCommands\<close> throws, the rest of the function does
  not run, so nothing is registered anew and no status message is shown.
\<close>

definition reloadCommands :: "world \<Rightarrow> state \<Rightarrow> bool \<Rightarrow> completion" where
  "reloadCommands w st silent =
     (case loadCustomCommands w st of
        Raised st1 \<Rightarrow> Raised st1
      | Returned st1 \<Rightarrow>
          (let st2 = registerCustomCommands st1
           in if \<not> silent
              then Returned
                     (emit [SetStatusBarMessage
                              (lit ''Reloaded '' @ number_string (length (customCommands st2))
                               @ lit '' custom commands'')] st2)
              else Returned st2))"

text \<open>
  \<^verbatim>\<open>updateRecentlyUsedCommands\<close> calls \<^verbatim>\<open>reloadCommands(true)\<close> and drops its promise:
  it returns whether that promise resolves or rejects.
\<close>

definition updateRecentlyUsedCommands :: "world \<Rightarrow> state \<Rightarrow> jsstring \<Rightarrow> state" where
  "updateRecentlyUsedCommands w st commandId =
     stateOf (reloadCommands w
       (st\<lparr>recentlyUsedCommands := touchRecent (recentlyUsedCommands st) commandId\<rparr>) True)"

text \<open>
  The message of the \<^verbatim>\<open>TypeError\<close> that destructuring \<^verbatim>\<open>null\<close> throws, as the engine
  of the host words it.
\<close>

definition destructureNullMessage :: jsstring where
  "destructureNullMessage = lit ''Cannot destructure property 'popup' of 'result' as it is null.''"

definition commandFailed :: "command \<Rightarrow> jsstring \<Rightarrow> effect" where
  "commandFailed cmd message =
     ShowErrorMessage (lit ''Error in \"'' @ name cmd @ lit ''\": '' @ message)"

text \<open>
  The \<^verbatim>\<open>catch\<close> block of \<^verbatim>\<open>executeCustomCommand\<close>: it shows the message of what was
  thrown, and when reading the message throws, that exception leaves the function.
\<close>

definition catchCommand :: "command \<Rightarrow> thrown \<Rightarrow> state \<Rightarrow> completion" where
  "catchCommand cmd e st =
     (case messageOf e of
        None \<Rightarrow> Raised st
      | Some message \<Rightarrow> Returned (emit [commandFailed cmd message] st))"

text \<open>The three steps after the destructuring, in the order of the source.\<close>

definition resultEffects ::
  "world \<Rightarrow> jsstring option \<Rightarrow> jsstring option \<Rightarrow> jsstring option \<Rightarrow> effect list" where
  "resultEffects w p r c =
     (case p of None \<Rightarrow> [] | Some v \<Rightarrow> [ShowInformationMessage v])
     @ (case r of
          None \<Rightarrow> []
        | Some v \<Rightarrow> (case activeTextEditor w of None \<Rightarrow> [] | Some sel \<Rightarrow> [EditReplace v]))
     @ (case c of
          None \<Rightarrow> []
        | Some v \<Rightarrow> [ClipboardWriteText v,
                      SetStatusBarMessage (lit ''Copied to clipboard: '' @ take 20 v)])"

text \<open>
  \<^verbatim>\<open>executeCustomCommand\<close>. \<^verbatim>\<open>command\<close> is read before the recency update reloads
  the commands, and it is that entry whose function is called and whose name an
  error message carries. Destructuring \<^verbatim>\<open>null\<close> throws an error with a message
  inside the \<^verbatim>\<open>try\<close> block.
\<close>

definition executeCustomCommand :: "world \<Rightarrow> state \<Rightarrow> jsstring \<Rightarrow> completion" where
  "executeCustomCommand w st commandId =
     (case map_of (customCommands st) commandId of
        None \<Rightarrow> Returned (emit [ShowErrorMessage (lit ''Custom command not found'')] st)
      | Some cmd \<Rightarrow>
          (let st1 = updateRecentlyUsedCommands w st commandId
           in case func cmd (activeTextEditor w) of
                Throws e \<Rightarrow> catchCommand cmd e st1
              | Resolves Undefined \<Rightarrow> Returned st1
              | Resolves Null \<Rightarrow> catchCommand cmd (ErrorWithMessage destructureNullMessage) st1
              | Resolves (Object p r c) \<Rightarrow> Returned (emit (resultEffects w p r c) st1)))"

text \<open>
  A run of calls of \<^verbatim>\<open>updateRecentlyUsedCommands\<close>, each with the surroundings it
  finds and the id it is given.
\<close>

definition touchSequence :: "state \<Rightarrow> (world \<times> jsstring) list \<Rightarrow> state" where
  "touchSequence st steps = foldl (\<lambda>s (w, cid). updateRecentlyUsedCommands w s cid) st steps"

text \<open>
  What stops \<^verbatim>\<open>loadCustomCommands\<close> in the given surroundings, if anything, and the
  error message it then shows, if any.
\<close>

definition loadFailure :: "world \<Rightarrow> thrown option" where
  "loadFailure w =
     (case commandsPath w of
        None \<Rightarrow> None
      | Some p \<Rightarrow>
          if fileExists w
          then (case requireModule w of
                  Inl e \<Rightarrow> Some e
                | Inr entries \<Rightarrow> snd (loadEntries (caseTable w) [] entries))
          else None)"

definition loadErrors :: "world \<Rightarrow> effect list" where
  "loadErrors w =
     (case loadFailure w of
        None \<Rightarrow> []
      | Some e \<Rightarrow>
          (case messageOf e of
             None \<Rightarrow> []
           | Some message \<Rightarrow>
               [ShowErrorMessage (lit ''Error loading custom-commander.js: '' @ message)]))"

text \<open>An information message or a replacement of the selection.\<close>

definition popupOrReplace :: "effect \<Rightarrow> bool" where
  "popupOrReplace e =
     (case e of ShowInformationMessage m \<Rightarrow> True | EditReplace m \<Rightarrow> True | _ \<Rightarrow> False)"

text \<open>
  Concrete data: one loaded command whose function has a given outcome, a definitions
  file that exports it, the state after that command was registered, and a
  definitions file whose evaluation throws a given value.
\<close>

definition exampleCommand :: "outcome \<Rightarrow> command" where
  "exampleCommand out =
     \<lparr>name = lit ''To Upper Case'', description = lit ''Execute To Upper Case function'',
      func = (\<lambda>sel. out)\<rparr>"

definition exampleId :: jsstring where
  "exampleId = lit ''custom-commander.custom.toUpperCase''"

definition exampleState :: "outcome \<Rightarrow> state" where
  "exampleState out = initialState\<lparr>customCommands := [(exampleId, exampleCommand out)]\<rparr>"

definition registeredState :: state where
  "registeredState = registerCustomCommands (exampleState (Resolves Undefined))"

definition throwingWorld :: "thrown \<Rightarrow> world" where
  "throwingWorld e =
     \<lparr>commandsPath = Some (lit ''/w/.vscode/custom-commander.js''), fileExists = True,
      requireModule = Inl e, activeTextEditor = None, caseTable = (\<lambda>c. [c])\<rparr>"

definition exampleWorld :: "outcome \<Rightarrow> world" where
  "exampleWorld out =
     \<lparr>commandsPath = Some (lit ''/w/.vscode/custom-commander.js''), fileExists = True,
      requireModule =
        Inr [(lit ''toUpperCase'',
              Function (Inr (lit ''function toUpperCase(selectedText) { }'')) (\<lambda>sel. out))],
      activeTextEditor = Some (lit ''abc''), caseTable = (\<lambda>c. [c])\<rparr>"

text \<open>
  A directive line for a key: a line of the source text that, trimmed, starts with the
  prefix, the key, a colon and a space.
\<close>

definition hasDirective :: "jsstring \<Rightarrow> jsstring \<Rightarrow> bool" where
  "hasDirective key src =
     list_ex (\<lambda>x. str_startsWith x (paramPrefix @ key @ lit '': ''))
       (map str_trim (str_split src (lit ''\<newline>'')))"

text \<open>
  The derived name in the words of the specification: the first character is
  capitalized, and a space is inserted before each uppercase letter after the first
  character.
\<close>

definition spec_derivedName :: "(nat \<Rightarrow> jsstring) \<Rightarrow> jsstring \<Rightarrow> jsstring" where
  "spec_derivedName upper ident =
     (case ident of
        [] \<Rightarrow> []
      | c # cs \<Rightarrow>
          toUpperCase_unit upper c
          @ concat (map (\<lambda>d. if isUpper d then [0x20, d] else [d]) cs))"

text \<open>Whether an identifier begins with a letter of \<^verbatim>\<open>[A-Z]\<close>.\<close>

definition beginsWithUpper :: "jsstring \<Rightarrow> bool" where
  "beginsWithUpper ident = (case ident of [] \<Rightarrow> False | c # cs \<Rightarrow> isUpper c)"

text \<open>
  Source texts: a function without directives, one whose description has a colon and a
  space inside, and one with the two directives of the example.
\<close>

definition plainSource :: jsstring where
  "plainSource = lit ''async function getNowFromAPI() {\<newline>  return { popup: 1 }\<newline>}''"

definition colonSource :: jsstring where
  "colonSource = lit ''function toUpperCase(selectedText) {\<newline>  // ~description: Usage: select text first\<newline>  return {}\<newline>}''"

definition directiveSource :: jsstring where
  "directiveSource = lit ''async function getNowFromAPI() {\<newline>  // ~name: Get Now\<newline>  // ~description: Fetch now.\<newline>  return {}\<newline>}''"


section \<open>Properties of the recency list\<close>

lemma array_indexOf_ge: "- 1 \<le> array_indexOf xs x"
  by (induction xs) (auto simp: Let_def)

lemma array_indexOf_absent: "array_indexOf xs x = - 1 \<longleftrightarrow> x \<notin> set xs"
proof (induction xs)
  case Nil
  show ?case by simp
next
  case (Cons y ys)
  have "array_indexOf ys x + 1 \<noteq> - 1"
    using array_indexOf_ge [of ys x] by arith
  with Cons show ?case by (auto simp: Let_def)
qed

lemma array_indexOf_nonneg: "x \<in> set xs \<Longrightarrow> 0 \<le> array_indexOf xs x"
  using array_indexOf_ge [of xs x] array_indexOf_absent [of xs x] by arith

lemma array_indexOf_head: "array_indexOf (x # xs) x = 0"
  by simp

lemma splice_indexOf:
  "x \<in> set xs \<Longrightarrow> array_splice xs (nat (array_indexOf xs x)) (Suc 0) = remove1 x xs"
proof (induction xs)
  case Nil
  then show ?case by simp
next
  case (Cons y ys)
  show ?case
  proof (cases "y = x")
    case True
    then show ?thesis by (simp add: array_splice_def)
  next
    case False
    with Cons.prems have mem: "x \<in> set ys" by simp
    then have nn: "0 \<le> array_indexOf ys x" by (rule array_indexOf_nonneg)
    then have "nat (array_indexOf ys x + 1) = Suc (nat (array_indexOf ys x))" by simp
    with False mem nn Cons.IH show ?thesis
      by (auto simp: array_splice_def Let_def array_indexOf_absent)
  qed
qed

lemma touchRecent_remove1: "touchRecent recent cid = cid # remove1 cid recent"
proof (cases "cid \<in> set recent")
  case True
  then have "array_indexOf recent cid > - 1"
    using array_indexOf_nonneg [of cid recent] by simp
  with True show ?thesis by (simp add: touchRecent_def splice_indexOf)
next
  case False
  then have "array_indexOf recent cid = - 1" by (simp add: array_indexOf_absent)
  with False show ?thesis by (simp add: touchRecent_def remove1_idem)
qed

lemma remdups_snoc: "remdups (xs @ [c]) = removeAll c (remdups xs) @ [c]"
  by (induction xs) auto

lemma touchRecent_remdups:
  "touchRecent (rev (remdups ids)) cid = rev (remdups (ids @ [cid]))"
  by (simp add: touchRecent_remove1 remdups_snoc distinct_remove1_removeAll
        removeAll_filter_not_eq rev_filter)

lemma recent_emit [simp]: "recentlyUsedCommands (emit es st) = recentlyUsedCommands st"
  by (simp add: emit_def)

lemma recent_catchLoad [simp]:
  "recentlyUsedCommands (stateOf (catchLoad e st)) = recentlyUsedCommands st"
  by (cases e) (simp_all add: catchLoad_def)

lemma recent_load [simp]:
  "recentlyUsedCommands (stateOf (loadCustomCommands w st)) = recentlyUsedCommands st"
  by (simp add: loadCustomCommands_def Let_def split: option.splits sum.splits prod.splits)

lemma recent_register [simp]: "recentlyUsedCommands (registerCustomCommands st) = recentlyUsedCommands st"
  by (simp add: registerCustomCommands_def Let_def)

lemma recent_reload [simp]:
  "recentlyUsedCommands (stateOf (reloadCommands w st silent)) = recentlyUsedCommands st"
proof (cases "loadCustomCommands w st")
  case (Returned st1)
  with recent_load [of w st] show ?thesis by (simp add: reloadCommands_def Let_def)
next
  case (Raised st1)
  with recent_load [of w st] show ?thesis by (simp add: reloadCommands_def)
qed

lemma recent_update:
  "recentlyUsedCommands (updateRecentlyUsedCommands w st cid) = touchRecent (recentlyUsedCommands st) cid"
  by (simp add: updateRecentlyUsedCommands_def)

lemma recent_touchSequence:
  "recentlyUsedCommands (touchSequence initialState steps) = rev (remdups (map snd steps))"
proof (induction steps rule: rev_induct)
  case Nil
  show ?case by (simp add: touchSequence_def initialState_def)
next
  case (snoc s steps)
  obtain w cid where s: "s = (w, cid)" by (cases s)
  have "touchSequence initialState (steps @ [s]) =
        updateRecentlyUsedCommands w (touchSequence initialState steps) cid"
    by (simp add: touchSequence_def s)
  then show ?case
    using snoc.IH by (simp add: recent_update touchRecent_remdups s)
qed

text \<open>
  C4: from the start of the extension, after any sequence of touches and one more touch
  of an id, that id is at position 0 of the recency list, no id occurs twice, and the
  list holds the ids touched, each once, the most recently touched first (the reverse
  of the sequence of touches with all but the last touch of every id dropped).
\<close>

theorem touch_moves_to_front:
  "array_indexOf (recentlyUsedCommands (updateRecentlyUsedCommands w (touchSequence initialState steps) cid)) cid = 0
   \<and> distinct (recentlyUsedCommands (updateRecentlyUsedCommands w (touchSequence initialState steps) cid))
   \<and> recentlyUsedCommands (updateRecentlyUsedCommands w (touchSequence initialState steps) cid)
       = rev (remdups (map snd steps @ [cid]))"
proof -
  have eq: "recentlyUsedCommands (updateRecentlyUsedCommands w (touchSequence initialState steps) cid)
            = rev (remdups (map snd steps @ [cid]))"
    by (simp only: recent_update recent_touchSequence touchRecent_remdups)
  have hd: "rev (remdups (map snd steps @ [cid])) = cid # rev (removeAll cid (remdups (map snd steps)))"
    by (simp add: remdups_snoc)
  show ?thesis
    unfolding eq by (simp add: hd distinct_removeAll del: remdups_append2)
qed


section \<open>Properties of loading, registering and executing\<close>

lemma effects_emit [simp]: "effects (emit es st) = effects st @ es"
  by (simp add: emit_def)

lemma effects_register [simp]: "effects (registerCustomCommands st) = effects st"
  by (simp add: registerCustomCommands_def Let_def)

lemma customCommands_register [simp]: "customCommands (registerCustomCommands st) = customCommands st"
  by (simp add: registerCustomCommands_def Let_def)

lemma array_sort_Nil [simp]: "array_sort cmp [] = []"
  by (simp add: array_sort_def)

lemma effects_catchLoad:
  "effects (stateOf (catchLoad e st))
     = effects st @ (case messageOf e of
                       None \<Rightarrow> []
                     | Some message \<Rightarrow>
                         [ShowErrorMessage (lit ''Error loading custom-commander.js: '' @ message)])"
  by (cases e) (simp_all add: catchLoad_def)

lemma effects_load: "effects (stateOf (loadCustomCommands w st)) = effects st @ loadErrors w"
proof (cases "commandsPath w")
  case None
  then show ?thesis by (simp add: loadCustomCommands_def loadErrors_def loadFailure_def)
next
  case (Some p)
  show ?thesis
  proof (cases "fileExists w")
    case False
    with Some show ?thesis by (simp add: loadCustomCommands_def loadErrors_def loadFailure_def)
  next
    case True
    show ?thesis
    proof (cases "requireModule w")
      case (Inl e)
      with Some True show ?thesis
        by (simp add: loadCustomCommands_def loadErrors_def loadFailure_def effects_catchLoad)
    next
      case (Inr entries)
      obtain cmds r where l: "loadEntries (caseTable w) [] entries = (cmds, r)"
        by (cases "loadEntries (caseTable w) [] entries")
      with Some True Inr show ?thesis
        by (cases r) (simp_all add: loadCustomCommands_def loadErrors_def loadFailure_def effects_catchLoad)
    qed
  qed
qed

lemma effects_reload_silent:
  "effects (stateOf (reloadCommands w st True)) = effects st @ loadErrors w"
proof (cases "loadCustomCommands w st")
  case (Returned st1)
  with effects_load [of w st] show ?thesis by (simp add: reloadCommands_def Let_def)
next
  case (Raised st1)
  with effects_load [of w st] show ?thesis by (simp add: reloadCommands_def)
qed

lemma effects_update:
  "effects (updateRecentlyUsedCommands w st cid) = effects st @ loadErrors w"
  by (simp add: updateRecentlyUsedCommands_def effects_reload_silent)

lemma loadErrors_cases: "loadErrors w = [] \<or> (\<exists>m. loadErrors w = [ShowErrorMessage m])"
  by (simp add: loadErrors_def split: option.split)

lemma loadErrors_no_popup: "filter popupOrReplace (loadErrors w) = []"
  using loadErrors_cases [of w] by (auto simp: popupOrReplace_def)

text \<open>
  A failure of \<^verbatim>\<open>require\<close> with a value whose message can be read: the exception is
  caught, the command set is empty, one error message with that message is shown, and
  a reload registers the picker alone.
\<close>

lemma load_failure_reported:
  assumes "commandsPath w = Some p" and "fileExists w" and "requireModule w = Inl e"
    and "messageOf e = Some message"
  shows "loadCustomCommands w st
           = Returned (st\<lparr>customCommands := [],
                          effects := effects st
                            @ [ShowErrorMessage (lit ''Error loading custom-commander.js: '' @ message)]\<rparr>)
       \<and> customCommands (stateOf (reloadCommands w st silent)) = []
       \<and> customCommandDisposables (stateOf (reloadCommands w st silent)) = [pickerId]"
  using assms
  by (simp add: loadCustomCommands_def catchLoad_def reloadCommands_def registerCustomCommands_def
        orderedCommandIds_def emit_def Let_def)

lemma registeredState_facts:
  "customCommandDisposables registeredState = [exampleId, pickerId]"
  "hostCommands registeredState = [exampleId, pickerId]"
  "effects registeredState = []"
  "customCommands registeredState = [(exampleId, exampleCommand (Resolves Undefined))]"
  by (simp_all add: registeredState_def registerCustomCommands_def exampleState_def initialState_def
        orderedCommandIds_def array_sort_def Let_def)

text \<open>
  C6: a definitions file whose evaluation throws \<^verbatim>\<open>null\<close> or \<^verbatim>\<open>undefined\<close>. The
  \<^verbatim>\<open>catch\<close> block throws when it reads the message: \<^verbatim>\<open>loadCustomCommands\<close> does not
  return, no error message is shown, and \<^verbatim>\<open>reloadCommands\<close> ends there, with the
  earlier command still registered although the command set is empty.
\<close>

theorem load_failure_null_escapes:
  "loadCustomCommands (throwingWorld NullOrUndefined) registeredState
     = Raised (registeredState\<lparr>customCommands := []\<rparr>)
   \<and> reloadCommands (throwingWorld NullOrUndefined) registeredState False
     = Raised (registeredState\<lparr>customCommands := []\<rparr>)
   \<and> effects (registeredState\<lparr>customCommands := []\<rparr>) = []
   \<and> hostCommands (registeredState\<lparr>customCommands := []\<rparr>) = [exampleId, pickerId]"
  by (simp add: loadCustomCommands_def reloadCommands_def catchLoad_def throwingWorld_def
        registeredState_facts Let_def)

text \<open>
  C7: for an id with no entry in \<^verbatim>\<open>customCommands\<close>, \<^verbatim>\<open>executeCustomCommand\<close> shows
  "Custom command not found" and changes nothing else: the recency list, the commands
  and the registrations are as before, and no other effect has happened.
\<close>

theorem execute_unknown_command:
  assumes "cid \<notin> set (map fst (customCommands st))"
  shows "executeCustomCommand w st cid
           = Returned (st\<lparr>effects := effects st @ [ShowErrorMessage (lit ''Custom command not found'')]\<rparr>)"
proof -
  from assms have "map_of (customCommands st) cid = None"
    by (simp add: map_of_eq_None_iff)
  then show ?thesis by (simp add: executeCustomCommand_def emit_def)
qed

lemma exampleId_not_gone: "lit ''custom-commander.custom.gone'' \<noteq> exampleId"
  by (simp add: exampleId_def lit_def)

text \<open>The hypothesis of C7 holds for an id that is not loaded.\<close>

theorem execute_unknown_command_witness:
  "lit ''custom-commander.custom.gone'' \<notin> set (map fst (customCommands (exampleState (Resolves Undefined))))
   \<and> executeCustomCommand (exampleWorld (Resolves Undefined)) (exampleState (Resolves Undefined))
        (lit ''custom-commander.custom.gone'')
      = Returned ((exampleState (Resolves Undefined))
                    \<lparr>effects := [ShowErrorMessage (lit ''Custom command not found'')]\<rparr>)"
proof -
  have a: "lit ''custom-commander.custom.gone'' \<notin> set (map fst (customCommands (exampleState (Resolves Undefined))))"
    by (simp add: exampleState_def exampleId_not_gone)
  have "effects (exampleState (Resolves Undefined)) = []"
    by (simp add: exampleState_def initialState_def)
  with execute_unknown_command [OF a, of "exampleWorld (Resolves Undefined)"] a
  show ?thesis by simp
qed

lemma recent_execute:
  "map_of (customCommands st) cid = Some cmd \<Longrightarrow>
   recentlyUsedCommands (stateOf (executeCustomCommand w st cid))
     = cid # remove1 cid (recentlyUsedCommands st)"
  by (simp add: executeCustomCommand_def catchCommand_def Let_def recent_update touchRecent_remove1
        split: outcome.splits jsresult.splits option.splits)

lemma example_lookup: "map_of (customCommands (exampleState out)) exampleId = Some (exampleCommand out)"
  by (simp add: exampleState_def)

lemma example_func: "func (exampleCommand out) (activeTextEditor (exampleWorld out')) = out"
  by (simp add: exampleCommand_def)

lemma example_facts:
  "recentlyUsedCommands (exampleState out) = []" "effects (exampleState out) = []"
  "loadErrors (exampleWorld out') = []" "name (exampleCommand out) = lit ''To Upper Case''"
  by (simp_all add: exampleState_def initialState_def loadErrors_def loadFailure_def exampleWorld_def
        exampleCommand_def Let_def)

text \<open>
  A function that throws or rejects with a value whose message can be read: the
  recency list has the id at the front, the effects are those of the silent reload
  followed by one error message that names the command and carries the message, and
  the rest of the state is as the recency update left it.
\<close>

lemma execute_failure_reported:
  assumes "map_of (customCommands st) cid = Some cmd"
    and "func cmd (activeTextEditor w) = Throws e"
    and "messageOf e = Some message"
  shows "executeCustomCommand w st cid
           = Returned ((updateRecentlyUsedCommands w st cid)
               \<lparr>effects := effects (updateRecentlyUsedCommands w st cid)
                    @ [ShowErrorMessage (lit ''Error in \"'' @ name cmd @ lit ''\": '' @ message)]\<rparr>)
       \<and> recentlyUsedCommands (stateOf (executeCustomCommand w st cid))
           = cid # remove1 cid (recentlyUsedCommands st)
       \<and> effects (stateOf (executeCustomCommand w st cid))
           = effects st @ loadErrors w
             @ [ShowErrorMessage (lit ''Error in \"'' @ name cmd @ lit ''\": '' @ message)]"
proof -
  have ex: "executeCustomCommand w st cid
            = Returned (emit [commandFailed cmd message] (updateRecentlyUsedCommands w st cid))"
    using assms by (simp add: executeCustomCommand_def catchCommand_def Let_def)
  have r: "recentlyUsedCommands (stateOf (executeCustomCommand w st cid))
           = cid # remove1 cid (recentlyUsedCommands st)"
    using assms(1) by (rule recent_execute)
  show ?thesis
    unfolding r by (simp add: ex effects_update commandFailed_def emit_def)
qed

text \<open>
  C8: a loaded command whose function rejects with \<^verbatim>\<open>undefined\<close> (or throws
  \<^verbatim>\<open>null\<close>). The recency list has the id at the front, but the \<^verbatim>\<open>catch\<close> block throws
  when it reads the message: no error message is shown, and the exception leaves
  \<^verbatim>\<open>executeCustomCommand\<close>.
\<close>

theorem execute_rejection_null_escapes:
  "executeCustomCommand (exampleWorld (Throws NullOrUndefined)) (exampleState (Throws NullOrUndefined)) exampleId
     = Raised (updateRecentlyUsedCommands (exampleWorld (Throws NullOrUndefined))
                 (exampleState (Throws NullOrUndefined)) exampleId)
   \<and> effects (stateOf (executeCustomCommand (exampleWorld (Throws NullOrUndefined))
                          (exampleState (Throws NullOrUndefined)) exampleId)) = []
   \<and> recentlyUsedCommands (stateOf (executeCustomCommand (exampleWorld (Throws NullOrUndefined))
                          (exampleState (Throws NullOrUndefined)) exampleId)) = [exampleId]"
proof -
  have ex: "executeCustomCommand (exampleWorld (Throws NullOrUndefined)) (exampleState (Throws NullOrUndefined)) exampleId
     = Raised (updateRecentlyUsedCommands (exampleWorld (Throws NullOrUndefined))
                 (exampleState (Throws NullOrUndefined)) exampleId)"
    by (simp add: executeCustomCommand_def catchCommand_def example_lookup example_func Let_def)
  show ?thesis
    by (simp add: ex effects_update recent_update touchRecent_remove1 example_facts)
qed

text \<open>
  C9: when the function of a loaded command resolves with an object that has only the
  field \<^verbatim>\<open>clipboard\<close>, the execution writes that text to the clipboard and shows the
  status bar message with its first 20 characters; beyond the silent reload it does
  nothing else, so there is no information message and no replacement of the selection.
\<close>

theorem execute_clipboard_only:
  assumes "map_of (customCommands st) cid = Some cmd"
    and "func cmd (activeTextEditor w) = Resolves (Object None None (Some text))"
  shows "effects (stateOf (executeCustomCommand w st cid))
           = effects st @ loadErrors w
             @ [ClipboardWriteText text, SetStatusBarMessage (lit ''Copied to clipboard: '' @ take 20 text)]
       \<and> filter popupOrReplace
            (drop (length (effects st)) (effects (stateOf (executeCustomCommand w st cid)))) = []
       \<and> executeCustomCommand w st cid
           = Returned ((updateRecentlyUsedCommands w st cid)
               \<lparr>effects := effects (updateRecentlyUsedCommands w st cid)
                    @ [ClipboardWriteText text,
                       SetStatusBarMessage (lit ''Copied to clipboard: '' @ take 20 text)]\<rparr>)"
proof -
  have ex: "executeCustomCommand w st cid
            = Returned (emit [ClipboardWriteText text,
                              SetStatusBarMessage (lit ''Copied to clipboard: '' @ take 20 text)]
                (updateRecentlyUsedCommands w st cid))"
    using assms by (simp add: executeCustomCommand_def Let_def resultEffects_def)
  have eff: "effects (stateOf (executeCustomCommand w st cid))
           = effects st @ loadErrors w
             @ [ClipboardWriteText text, SetStatusBarMessage (lit ''Copied to clipboard: '' @ take 20 text)]"
    by (simp add: ex effects_update)
  have none: "filter popupOrReplace
                (drop (length (effects st)) (effects (stateOf (executeCustomCommand w st cid)))) = []"
    unfolding eff by (simp add: loadErrors_no_popup popupOrReplace_def)
  show ?thesis
    using eff none by (simp add: ex emit_def)
qed

text \<open>The hypotheses of C9 hold for a command that resolves with \<^verbatim>\<open>{ clipboard: "abc" }\<close>.\<close>

theorem execute_clipboard_only_witness:
  "map_of (customCommands (exampleState (Resolves (Object None None (Some (lit ''abc'')))))) exampleId
     = Some (exampleCommand (Resolves (Object None None (Some (lit ''abc'')))))
   \<and> func (exampleCommand (Resolves (Object None None (Some (lit ''abc'')))))
        (activeTextEditor (exampleWorld (Resolves (Object None None (Some (lit ''abc''))))))
     = Resolves (Object None None (Some (lit ''abc'')))
   \<and> effects (stateOf (executeCustomCommand (exampleWorld (Resolves (Object None None (Some (lit ''abc'')))))
                (exampleState (Resolves (Object None None (Some (lit ''abc''))))) exampleId))
       = [ClipboardWriteText (lit ''abc''), SetStatusBarMessage (lit ''Copied to clipboard: abc'')]"
  using execute_clipboard_only [OF example_lookup [of "Resolves (Object None None (Some (lit ''abc'')))"]
      example_func [of "Resolves (Object None None (Some (lit ''abc'')))"
                       "Resolves (Object None None (Some (lit ''abc'')))"]]
    example_lookup [of "Resolves (Object None None (Some (lit ''abc'')))"]
    example_func [of "Resolves (Object None None (Some (lit ''abc'')))"
                     "Resolves (Object None None (Some (lit ''abc'')))"]
  by (simp add: example_facts recent_update touchRecent_remove1 effects_update lit_def)

text \<open>
  C10: when the function of a loaded command resolves with \<^verbatim>\<open>null\<close>, the destructuring
  throws, and the execution shows an error message that names the command, after the
  recency update; it does not end as silently as it does for \<^verbatim>\<open>undefined\<close>.
\<close>

theorem execute_null_result:
  assumes "map_of (customCommands st) cid = Some cmd"
    and "func cmd (activeTextEditor w) = Resolves Null"
  shows "effects (stateOf (executeCustomCommand w st cid))
           = effects st @ loadErrors w
             @ [ShowErrorMessage (lit ''Error in \"'' @ name cmd @ lit ''\": '' @ destructureNullMessage)]
       \<and> recentlyUsedCommands (stateOf (executeCustomCommand w st cid))
           = cid # remove1 cid (recentlyUsedCommands st)
       \<and> executeCustomCommand w st cid \<noteq> Returned (updateRecentlyUsedCommands w st cid)
       \<and> executeCustomCommand w st cid
           = Returned ((updateRecentlyUsedCommands w st cid)
               \<lparr>effects := effects (updateRecentlyUsedCommands w st cid)
                    @ [ShowErrorMessage
                         (lit ''Error in \"'' @ name cmd @ lit ''\": '' @ destructureNullMessage)]\<rparr>)"
proof -
  have ex: "executeCustomCommand w st cid
            = Returned (emit [commandFailed cmd destructureNullMessage] (updateRecentlyUsedCommands w st cid))"
    using assms by (simp add: executeCustomCommand_def catchCommand_def Let_def)
  have r: "recentlyUsedCommands (stateOf (executeCustomCommand w st cid))
           = cid # remove1 cid (recentlyUsedCommands st)"
    using assms(1) by (rule recent_execute)
  have "effects (stateOf (executeCustomCommand w st cid)) \<noteq> effects (updateRecentlyUsedCommands w st cid)"
    by (simp add: ex)
  then have ne: "executeCustomCommand w st cid \<noteq> Returned (updateRecentlyUsedCommands w st cid)"
    by auto
  show ?thesis
    unfolding r using ne by (simp add: ex effects_update commandFailed_def emit_def)
qed

text \<open>The hypotheses of C10 hold for a command that resolves with \<^verbatim>\<open>null\<close>.\<close>

theorem execute_null_result_witness:
  "map_of (customCommands (exampleState (Resolves Null))) exampleId = Some (exampleCommand (Resolves Null))
   \<and> func (exampleCommand (Resolves Null)) (activeTextEditor (exampleWorld (Resolves Null))) = Resolves Null
   \<and> effects (stateOf (executeCustomCommand (exampleWorld (Resolves Null)) (exampleState (Resolves Null)) exampleId))
       = [ShowErrorMessage
            (lit ''Error in \"To Upper Case\": Cannot destructure property 'popup' of 'result' as it is null.'')]
   \<and> recentlyUsedCommands
        (stateOf (executeCustomCommand (exampleWorld (Resolves Null)) (exampleState (Resolves Null)) exampleId))
       = [exampleId]"
  using execute_null_result [OF example_lookup [of "Resolves Null"]
      example_func [of "Resolves Null" "Resolves Null"]]
    example_lookup [of "Resolves Null"] example_func [of "Resolves Null" "Resolves Null"]
  by (simp add: example_facts destructureNullMessage_def recent_update touchRecent_remove1
        effects_update lit_def)

text \<open>For \<^verbatim>\<open>undefined\<close> the execution ends with the recency update.\<close>

lemma execute_undefined_result:
  assumes "map_of (customCommands st) cid = Some cmd"
    and "func cmd (activeTextEditor w) = Resolves Undefined"
  shows "executeCustomCommand w st cid = Returned (updateRecentlyUsedCommands w st cid)"
  using assms by (simp add: executeCustomCommand_def Let_def)

text \<open>
  C5: whatever the commands are, \<^verbatim>\<open>registerCustomCommands\<close> registers the picker. With
  no command entries the picker is the only disposable the extension holds, it is the
  only live registration when every earlier one was held as a disposable, and its
  handler offers the single choice to create a commands file.
\<close>

theorem picker_always_registered:
  "pickerId \<in> set (hostCommands (registerCustomCommands st))
   \<and> pickerId \<in> set (customCommandDisposables (registerCustomCommands st))
   \<and> (customCommands st = [] \<longrightarrow>
        customCommandDisposables (registerCustomCommands st) = [pickerId]
        \<and> (set (hostCommands st) \<subseteq> set (customCommandDisposables st) \<longrightarrow>
             hostCommands (registerCustomCommands st) = [pickerId])
        \<and> pickerQuickPick (registerCustomCommands st)
            = Some ([QuickPickItem (lit ''$(file-add) Create Commands File'')
                       (lit ''Create a new custom-commander.js file with sample functions'')
                       (lit ''create-commands-file'')],
                    lit ''No custom functions found. Create a commands file to get started.''))"
proof -
  have "filter (\<lambda>c. c \<notin> set (customCommandDisposables st)) (hostCommands st) = []"
    if "set (hostCommands st) \<subseteq> set (customCommandDisposables st)"
    using that by (auto simp: filter_empty_conv)
  then show ?thesis
    by (simp add: registerCustomCommands_def orderedCommandIds_def pickerQuickPick_def Let_def)
qed

text \<open>The hypotheses of C5 hold in the initial state.\<close>

theorem picker_always_registered_witness:
  "pickerId \<in> set (hostCommands (registerCustomCommands initialState))
   \<and> customCommands initialState = []
   \<and> set (hostCommands initialState) \<subseteq> set (customCommandDisposables initialState)
   \<and> customCommandDisposables (registerCustomCommands initialState) = [pickerId]
   \<and> hostCommands (registerCustomCommands initialState) = [pickerId]
   \<and> pickerQuickPick (registerCustomCommands initialState)
       = Some ([QuickPickItem (lit ''$(file-add) Create Commands File'')
                  (lit ''Create a new custom-commander.js file with sample functions'')
                  (lit ''create-commands-file'')],
               lit ''No custom functions found. Create a commands file to get started.'')"
proof -
  have a: "customCommands initialState = []"
    and b: "set (hostCommands initialState) \<subseteq> set (customCommandDisposables initialState)"
    by (simp_all add: initialState_def)
  from picker_always_registered [of initialState] a b show ?thesis by simp
qed


section \<open>The registration order\<close>

lemma compareRecent_both:
  "a \<in> set r \<Longrightarrow> b \<in> set r \<Longrightarrow>
   (compareRecent r a b \<le> 0) = (array_indexOf r a \<le> array_indexOf r b)"
  by (simp add: compareRecent_def Let_def array_indexOf_absent)

lemma compareRecent_first: "a \<in> set r \<Longrightarrow> b \<notin> set r \<Longrightarrow> compareRecent r a b = - 1"
  by (simp add: compareRecent_def Let_def array_indexOf_absent)

lemma compareRecent_second: "a \<notin> set r \<Longrightarrow> b \<in> set r \<Longrightarrow> compareRecent r a b = 1"
  by (simp add: compareRecent_def Let_def array_indexOf_absent)

lemma compareRecent_neither: "a \<notin> set r \<Longrightarrow> b \<notin> set r \<Longrightarrow> compareRecent r a b = 0"
  by (simp add: compareRecent_def Let_def array_indexOf_absent)

lemma insertStable_before_absent:
  assumes "a \<in> set r" and "set qs \<inter> set r = {}"
  shows "insertStable (compareRecent r) a qs = a # qs"
proof (cases qs)
  case Nil
  then show ?thesis by simp
next
  case (Cons q qs')
  with assms have "q \<notin> set r" by auto
  with assms(1) Cons show ?thesis by (simp add: compareRecent_first)
qed

lemma insertStable_present:
  assumes "a \<in> set r" and "set ps \<subseteq> set r" and "set qs \<inter> set r = {}"
  shows "insertStable (compareRecent r) a (ps @ qs) = insort_key (array_indexOf r) a ps @ qs"
  using assms(2)
proof (induction ps)
  case Nil
  from assms(1,3) show ?case by (simp add: insertStable_before_absent)
next
  case (Cons p ps)
  then have "p \<in> set r" by simp
  with assms(1) Cons show ?case by (simp add: compareRecent_both)
qed

lemma insertStable_absent:
  assumes "a \<notin> set r" and "set ps \<subseteq> set r" and "set qs \<inter> set r = {}"
  shows "insertStable (compareRecent r) a (ps @ qs) = ps @ a # qs"
  using assms(2)
proof (induction ps)
  case Nil
  show ?case
  proof (cases qs)
    case Nil
    then show ?thesis by simp
  next
    case (Cons q qs')
    with assms(3) have "q \<notin> set r" by auto
    with assms(1) Cons show ?thesis by (simp add: compareRecent_neither)
  qed
next
  case (Cons p ps)
  then have "p \<in> set r" by simp
  with assms(1) Cons show ?case by (simp add: compareRecent_second)
qed

lemma array_sort_Cons: "array_sort cmp (x # xs) = insertStable cmp x (array_sort cmp xs)"
  by (simp add: array_sort_def)

lemma array_sort_compareRecent:
  "array_sort (compareRecent r) ks
     = sort_key (array_indexOf r) (filter (\<lambda>k. k \<in> set r) ks) @ filter (\<lambda>k. k \<notin> set r) ks"
proof (induction ks)
  case Nil
  show ?case by simp
next
  case (Cons k ks)
  let ?ps = "sort_key (array_indexOf r) (filter (\<lambda>k. k \<in> set r) ks)"
  let ?qs = "filter (\<lambda>k. k \<notin> set r) ks"
  have ps: "set ?ps \<subseteq> set r" by auto
  have qs: "set ?qs \<inter> set r = {}" by auto
  show ?case
  proof (cases "k \<in> set r")
    case True
    then show ?thesis
      by (simp add: array_sort_Cons Cons.IH insertStable_present [OF True ps qs])
  next
    case False
    then show ?thesis
      by (simp add: array_sort_Cons Cons.IH insertStable_absent [OF False ps qs])
  qed
qed

text \<open>
  C1: the order in which \<^verbatim>\<open>registerCustomCommands\<close> registers the commands is the ids that
  are in the recency list, sorted by their position in it (a stable insertion sort on
  that position, so ascending), followed by the ids that are not in it, in the order
  they have in the command set; the picker comes last. For the entries A, B, C and the
  recency list C, A the order is C, A, B.
\<close>

theorem registration_order:
  "orderedCommandIds cmds recent
     = sort_key (array_indexOf recent) (filter (\<lambda>k. k \<in> set recent) (map fst cmds))
       @ filter (\<lambda>k. k \<notin> set recent) (map fst cmds)
   \<and> sorted (map (array_indexOf recent)
               (sort_key (array_indexOf recent) (filter (\<lambda>k. k \<in> set recent) (map fst cmds))))
   \<and> customCommandDisposables (registerCustomCommands st)
       = orderedCommandIds (customCommands st) (recentlyUsedCommands st) @ [pickerId]
   \<and> orderedCommandIds [(lit ''A'', a), (lit ''B'', b), (lit ''C'', c)] [lit ''C'', lit ''A'']
       = [lit ''C'', lit ''A'', lit ''B'']"
proof -
  have ex: "orderedCommandIds [(lit ''A'', a), (lit ''B'', b), (lit ''C'', c)] [lit ''C'', lit ''A'']
       = [lit ''C'', lit ''A'', lit ''B'']"
    by (simp add: orderedCommandIds_def array_sort_def compareRecent_def lit_def)
  show ?thesis
    using ex
    by (simp add: orderedCommandIds_def array_sort_compareRecent registerCustomCommands_def Let_def)
qed


section \<open>Properties of the metadata extractor\<close>

lemma str_startsWith_iff: "str_startsWith s p \<longleftrightarrow> (\<exists>t. s = p @ t)"
  by (induction s p rule: str_startsWith.induct) auto

lemma str_replace_prefix: "str_startsWith x p \<Longrightarrow> str_replace x p [] = drop (length p) x"
  by (cases x) auto

lemma split_from_first:
  "split_from sep cur s = k # v # rest \<Longrightarrow> \<exists>t. cur @ s = k @ sep @ t"
proof (induction sep cur s rule: split_from.induct)
  case (1 sep cur)
  then show ?case by simp
next
  case (2 sep cur c cs)
  show ?case
  proof (cases "str_startsWith (c # cs) sep")
    case True
    then obtain t where "c # cs = sep @ t" by (auto simp: str_startsWith_iff)
    moreover from True "2.prems" have "k = cur" by simp
    ultimately show ?thesis by simp
  next
    case False
    with "2.prems" have "split_from sep (cur @ [c]) cs = k # v # rest" by simp
    from "2.IH"(2) [OF False this] show ?thesis by simp
  qed
qed

lemma directive_key:
  assumes "str_startsWith x paramPrefix"
    and "str_split (str_replace x paramPrefix []) (lit '': '') = key # v # rest"
  shows "str_startsWith x (paramPrefix @ key @ (lit '': ''))"
proof -
  from assms(1) obtain r where x: "x = paramPrefix @ r" by (auto simp: str_startsWith_iff)
  with assms(1) have "str_replace x paramPrefix [] = r" by (simp add: str_replace_prefix)
  with assms(2) have "split_from (lit '': '') [] r = key # v # rest" by (simp add: str_split_def lit_def)
  then obtain t where "r = key @ (lit '': '') @ t" by (auto dest: split_from_first)
  with x show ?thesis by (auto simp: str_startsWith_iff)
qed

lemma setMeta_keeps_None:
  "acc key = None \<Longrightarrow> (\<And>v rest. ps \<noteq> key # v # rest) \<Longrightarrow> setMeta acc ps key = None"
  by (cases "(acc, ps)" rule: setMeta.cases) auto

lemma foldl_setMeta_None:
  "acc key = None \<Longrightarrow> (\<And>ps v rest. ps \<in> set pss \<Longrightarrow> ps \<noteq> key # v # rest) \<Longrightarrow>
   foldl setMeta acc pss key = None"
proof (induction pss arbitrary: acc)
  case Nil
  then show ?case by simp
next
  case (Cons ps pss)
  have "setMeta acc ps key = None"
    using Cons.prems by (intro setMeta_keeps_None) auto
  then show ?case
    using Cons.prems by (simp add: Cons.IH)
qed

lemma foundMeta_absent:
  assumes "\<not> hasDirective key src"
  shows "foundMeta src key = None"
  unfolding foundMeta_def
proof (rule foldl_setMeta_None)
  show "Map.empty key = None" by simp
next
  fix ps v rest
  assume "ps \<in> set (map (\<lambda>x. str_split (str_replace x paramPrefix []) (lit '': '')) (directiveLines src))"
  then obtain x where x: "x \<in> set (directiveLines src)"
    and ps: "ps = str_split (str_replace x paramPrefix []) (lit '': '')" by auto
  from x have pre: "str_startsWith x paramPrefix"
    and mem: "x \<in> set (map str_trim (str_split src (lit ''\<newline>'')))"
    by (auto simp: directiveLines_def)
  show "ps \<noteq> key # v # rest"
  proof
    assume "ps = key # v # rest"
    with ps have "str_split (str_replace x paramPrefix []) (lit '': '') = key # v # rest" by simp
    with pre have "str_startsWith x (paramPrefix @ key @ (lit '': ''))" by (rule directive_key)
    with mem have "hasDirective key src"
      unfolding hasDirective_def list_ex_iff by blast
    with assms show False by simp
  qed
qed

lemma toUpperCase_lineTerminator: "isLineTerminator c \<Longrightarrow> toUpperCase_unit upper c = [c]"
proof -
  assume "isLineTerminator c"
  then have "c = 0x0A \<or> c = 0x0D \<or> c = 0x2028 \<or> c = 0x2029"
    by (simp add: isLineTerminator_def)
  then show ?thesis by (elim disjE) (simp_all add: toUpperCase_unit_def)
qed

lemma derived_name_spec:
  assumes "\<not> beginsWithUpper funcName"
  shows "upperCaseFirst upper (spaceBeforeUpper funcName) = spec_derivedName upper funcName"
proof (cases funcName)
  case Nil
  then show ?thesis by (simp add: upperCaseFirst_def spaceBeforeUpper_def spec_derivedName_def)
next
  case (Cons c cs)
  with assms have "\<not> isUpper c" by (simp add: beginsWithUpper_def)
  with Cons show ?thesis
    by (simp add: upperCaseFirst_def spaceBeforeUpper_def spec_derivedName_def toUpperCase_lineTerminator)
qed

text \<open>
  C2, as amended: for an identifier that does not begin with an uppercase letter and a
  source text without a name directive, the derived name is the identifier with its
  first character capitalized and a space before every uppercase letter, also before
  each letter of a run of capitals; without a description directive the description
  is "Execute ", the name and " function".
\<close>

theorem derived_name_without_directive:
  assumes "\<not> hasDirective (lit ''name'') src"
    and "\<not> beginsWithUpper funcName"
  shows "name (extractMetaFromFunction upper funcName src) = spec_derivedName upper funcName
       \<and> (\<not> hasDirective (lit ''description'') src \<longrightarrow>
            description (extractMetaFromFunction upper funcName src)
              = lit ''Execute '' @ spec_derivedName upper funcName @ (lit '' function''))"
  using assms(1) derived_name_spec [OF assms(2)]
  by (simp add: extractMetaFromFunction_def Let_def foundMeta_absent orElse_def)

lemma plainSource_no_directive:
  "\<not> hasDirective (lit ''name'') plainSource" "\<not> hasDirective (lit ''description'') plainSource"
  by (simp_all add: hasDirective_def plainSource_def str_split_def str_trim_def isWhiteSpace_def
        paramPrefix_def lit_def)

text \<open>
  The hypotheses of the amended C2 hold for \<^verbatim>\<open>getNowFromAPI\<close> without directives; the name
  is "Get Now From A P I".
\<close>

theorem derived_name_without_directive_witness:
  "\<not> hasDirective (lit ''name'') plainSource \<and> \<not> hasDirective (lit ''description'') plainSource
   \<and> \<not> beginsWithUpper (lit ''getNowFromAPI'')
   \<and> name (extractMetaFromFunction (\<lambda>c. [c]) (lit ''getNowFromAPI'') plainSource) = lit ''Get Now From A P I''
   \<and> description (extractMetaFromFunction (\<lambda>c. [c]) (lit ''getNowFromAPI'') plainSource)
       = lit ''Execute Get Now From A P I function''"
proof -
  have u: "\<not> beginsWithUpper (lit ''getNowFromAPI'')"
    by (simp add: beginsWithUpper_def isUpper_def lit_def)
  have s: "spec_derivedName (\<lambda>c. [c]) (lit ''getNowFromAPI'') = lit ''Get Now From A P I''"
    by (simp add: spec_derivedName_def isUpper_def toUpperCase_unit_def lit_def)
  have c: "lit ''Execute '' @ lit ''Get Now From A P I'' @ lit '' function''
           = lit ''Execute Get Now From A P I function''"
    by (simp add: lit_def)
  from derived_name_without_directive [OF plainSource_no_directive(1) u, of "\<lambda>c. [c]"]
    plainSource_no_directive
  show ?thesis by (simp add: s u c)
qed

text \<open>
  An identifier that begins with an uppercase letter gets its space in front, and
  capitalizing then meets the space.
\<close>

lemma derived_name_leading_upper:
  "name (extractMetaFromFunction upper (lit ''Foo'') plainSource) = lit '' Foo''"
  by (simp add: extractMetaFromFunction_def foundMeta_def directiveLines_def plainSource_def
        str_split_def str_trim_def isWhiteSpace_def paramPrefix_def orElse_def upperCaseFirst_def
        spaceBeforeUpper_def isUpper_def toUpperCase_unit_def lit_def isLineTerminator_def Let_def)

text \<open>
  C2 as stated fails at its own example: for \<^verbatim>\<open>getNowFromAPI\<close> without directives the
  name is not "Get Now From API" and the description is not "Execute Get Now From API
  function".
\<close>

theorem derived_name_example_counterexample:
  "\<not> hasDirective (lit ''name'') plainSource \<and> \<not> hasDirective (lit ''description'') plainSource
   \<and> name (extractMetaFromFunction (\<lambda>c. [c]) (lit ''getNowFromAPI'') plainSource) \<noteq> lit ''Get Now From API''
   \<and> description (extractMetaFromFunction (\<lambda>c. [c]) (lit ''getNowFromAPI'') plainSource)
       \<noteq> lit ''Execute Get Now From API function''"
proof -
  have "extractMetaFromFunction (\<lambda>c. [c]) (lit ''getNowFromAPI'') plainSource
        = \<lparr>name = lit ''Get Now From A P I'', description = lit ''Execute Get Now From A P I function''\<rparr>"
    by (simp add: extractMetaFromFunction_def foundMeta_def directiveLines_def plainSource_def
          str_split_def str_trim_def isWhiteSpace_def paramPrefix_def orElse_def upperCaseFirst_def
          spaceBeforeUpper_def isUpper_def toUpperCase_unit_def lit_def isLineTerminator_def Let_def)
  moreover have "lit ''Get Now From A P I'' \<noteq> lit ''Get Now From API''"
    and "lit ''Execute Get Now From A P I function'' \<noteq> lit ''Execute Get Now From API function''"
    by (simp_all add: lit_def)
  ultimately show ?thesis by (simp add: plainSource_no_directive)
qed

lemma directive_values_example:
  "extractMetaFromFunction upper (lit ''getNowFromAPI'') directiveSource
     = \<lparr>name = lit ''Get Now'', description = lit ''Fetch now.''\<rparr>"
  by (simp add: extractMetaFromFunction_def foundMeta_def directiveLines_def directiveSource_def
        str_split_def str_trim_def isWhiteSpace_def paramPrefix_def orElse_def Let_def lit_def)

text \<open>
  C3: a description directive whose value has a colon and a space inside is cut at
  that place: of "Usage: select text first" the description keeps "Usage".
\<close>

theorem directive_value_truncated:
  "hasDirective (lit ''description'') colonSource
   \<and> description (extractMetaFromFunction upper (lit ''toUpperCase'') colonSource) = lit ''Usage''
   \<and> description (extractMetaFromFunction upper (lit ''toUpperCase'') colonSource) \<noteq> lit ''Usage: select text first''"
proof -
  have "hasDirective (lit ''description'') colonSource"
    by (simp add: hasDirective_def colonSource_def str_split_def str_trim_def isWhiteSpace_def
          paramPrefix_def lit_def)
  moreover have "description (extractMetaFromFunction upper (lit ''toUpperCase'') colonSource) = lit ''Usage''"
    by (simp add: extractMetaFromFunction_def foundMeta_def directiveLines_def colonSource_def
          str_split_def str_trim_def isWhiteSpace_def paramPrefix_def orElse_def Let_def lit_def)
  moreover have "lit ''Usage'' \<noteq> lit ''Usage: select text first''"
    by (simp add: lit_def)
  ultimately show ?thesis by simp
qed

end
